theory Spec2Isabelle
  imports Complex_Main
begin

section \<open>The camera module of ladder\<close>

text \<open>
  A shallow embedding of \<^verbatim>\<open>src/ladder/camera/__init__.py\<close>: the enum \<^verbatim>\<open>CameraMode\<close>
  with its three mutators, the data holder \<^verbatim>\<open>CameraSettings\<close>, the class \<^verbatim>\<open>Camera\<close>
  with the kernel \<^verbatim>\<open>compute_projection_matrix\<close>, and the function
  \<^verbatim>\<open>projection_from_frustum\<close>.

  Numbers. The source computes with floating-point numbers. They are modelled by the
  type \<open>real\<close>: every arithmetic operation of the source is the exact operation, and
  \<^verbatim>\<open>ti.tan\<close> is \<open>tan\<close>. Rounding, infinities and NaN are therefore outside the model; in
  particular a division by zero, which the source answers by an infinity or a NaN, is
  \<open>0\<close> in HOL. Concrete inputs below are chosen with non-zero denominators.

  Kernels. \<^verbatim>\<open>compute_projection_matrix\<close> is a Taichi kernel of a data-oriented class.
  Taichi compiles such a kernel when it is first called on an object: the test under
  \<^verbatim>\<open>ti.static\<close> is decided then, and the Python attributes the body reads become
  constants of the compiled kernel. Every later call on that object runs the compiled
  kernel. The camera therefore carries its compiled kernel as part of its state.

  Exceptions. A Python \<^verbatim>\<open>raise\<close> is the left summand of a result \<open>error + 'a\<close>. The only
  exception the module raises is \<^verbatim>\<open>ValueError("Invalid camera mode")\<close>.
\<close>

subsection \<open>Errors\<close>

datatype error = ValueError string

subsection \<open>CameraMode\<close>

text \<open>
  The three members of the enum. A member is a singleton object: a value of this type
  is the reference to it, and \<open>CameraMode_value\<close> is its \<^verbatim>\<open>_value_\<close>, the first component
  of the tuple in the class body.
\<close>

datatype CameraMode = PERSPECTIVE | ORTHOGRAPHIC | PHYSICAL

fun CameraMode_value :: "CameraMode \<Rightarrow> int" where
  "CameraMode_value PERSPECTIVE = 1"
| "CameraMode_value ORTHOGRAPHIC = 2"
| "CameraMode_value PHYSICAL = 3"

text \<open>
  \<^verbatim>\<open>__new__\<close> gives each member exactly one further attribute: \<^verbatim>\<open>fov_rad\<close> on
  \<^verbatim>\<open>PERSPECTIVE\<close>, \<^verbatim>\<open>box_height\<close> on \<^verbatim>\<open>ORTHOGRAPHIC\<close>, \<^verbatim>\<open>focal_length\<close> on \<^verbatim>\<open>PHYSICAL\<close>.
  The members are created once, when the class is defined, and are shared by everything
  that refers to them. The record \<open>members\<close> is the state of the three objects: one
  field for the attribute of each.
\<close>

record members =
  fov_rad :: real
  box_height :: real
  focal_length :: real

text \<open>The state after the class body has run.\<close>

definition CameraMode_members :: members where
  "CameraMode_members =
     \<lparr>fov_rad = 80 * (pi / 180), box_height = 80, focal_length = 80\<rparr>"

text \<open>
  The mutators. Each tests \<^verbatim>\<open>self.value\<close>, assigns the attribute of \<^verbatim>\<open>self\<close> or raises, and
  returns \<^verbatim>\<open>self\<close>: the result is the returned reference and the new state of the
  members.
\<close>

definition set_fov_rad ::
  "CameraMode \<Rightarrow> real \<Rightarrow> members \<Rightarrow> error + (CameraMode \<times> members)" where
  "set_fov_rad self v ms =
     (if CameraMode_value self = 1 then Inr (self, ms\<lparr>fov_rad := v\<rparr>)
      else Inl (ValueError ''Invalid camera mode''))"

definition set_box_height ::
  "CameraMode \<Rightarrow> real \<Rightarrow> members \<Rightarrow> error + (CameraMode \<times> members)" where
  "set_box_height self v ms =
     (if CameraMode_value self = 2 then Inr (self, ms\<lparr>box_height := v\<rparr>)
      else Inl (ValueError ''Invalid camera mode''))"

definition set_focal_length ::
  "CameraMode \<Rightarrow> real \<Rightarrow> members \<Rightarrow> error + (CameraMode \<times> members)" where
  "set_focal_length self v ms =
     (if CameraMode_value self = 3 then Inr (self, ms\<lparr>focal_length := v\<rparr>)
      else Inl (ValueError ''Invalid camera mode''))"

subsection \<open>CameraSettings\<close>

record CameraSettings =
  mode :: CameraMode
  near_plane :: real
  far_plane :: real
  shutter_speed :: real
  aperture :: real
  iso :: real
  sensor_size :: "real \<times> real"
  focus_distance :: real
  aspect_ratio :: real

text \<open>
  \<^verbatim>\<open>CameraSettings.__init__\<close> is nine assignments. Its body has no test and no \<^verbatim>\<open>raise\<close>,
  so the result is \<open>Inr\<close> on every argument tuple.
\<close>

definition CameraSettings_init ::
  "CameraMode \<Rightarrow> real \<Rightarrow> real \<Rightarrow> real \<Rightarrow> real \<Rightarrow> real \<Rightarrow> real \<times> real \<Rightarrow> real \<Rightarrow> real
     \<Rightarrow> error + CameraSettings" where
  "CameraSettings_init mode' near_plane' far_plane' shutter_speed' aperture' iso'
       sensor_size' focus_distance' aspect_ratio' =
     Inr \<lparr>mode = mode', near_plane = near_plane', far_plane = far_plane',
          shutter_speed = shutter_speed', aperture = aperture', iso = iso',
          sensor_size = sensor_size', focus_distance = focus_distance',
          aspect_ratio = aspect_ratio'\<rparr>"

text \<open>The call with every argument left at its default.\<close>

definition CameraSettings_default :: "error + CameraSettings" where
  "CameraSettings_default =
     CameraSettings_init PERSPECTIVE (1 / 10) 10000 10 4 100 (36, 24) 4 1"

subsection \<open>The projection matrix of a frustum\<close>

text \<open>A matrix is the list of its rows, as the argument of \<^verbatim>\<open>ti.Matrix\<close> is.\<close>

type_synonym matrix = "real list list"

definition projection_from_frustum ::
  "real \<Rightarrow> real \<Rightarrow> real \<Rightarrow> real \<Rightarrow> real \<Rightarrow> real \<Rightarrow> matrix" where
  "projection_from_frustum left right bottom top' near far =
     (let depth_range = far - near;
          n2 = 2 * near;
          mxx = n2 / (right - left);
          myy = n2 / (top' - bottom);
          mzx = (right + left) / (right - left);
          mzy = (top' + bottom) / (top' - bottom);
          mzz = - far / depth_range;
          mwz = near * mzz;
          mzw = - 1
      in [[mxx, 0, 0, 0],
          [0, myy, 0, 0],
          [mzx, mzy, - mzz - 1, mzw],
          [0, 0, - mwz, 0]])"

text \<open>
  The derivation as the specification words it (section 4.4): the same quantities,
  without the intermediate \<^verbatim>\<open>n2\<close>, and the layout given row by row.
\<close>

definition frustum_matrix_spec ::
  "real \<Rightarrow> real \<Rightarrow> real \<Rightarrow> real \<Rightarrow> real \<Rightarrow> real \<Rightarrow> matrix" where
  "frustum_matrix_spec left right bottom top' near far =
     (let depth_range = far - near;
          mxx = 2 * near / (right - left);
          myy = 2 * near / (top' - bottom);
          mzx = (right + left) / (right - left);
          mzy = (top' + bottom) / (top' - bottom);
          mzz = - far / depth_range;
          mwz = near * mzz;
          mzw = - 1;
          row0 = [mxx, 0, 0, 0];
          row1 = [0, myy, 0, 0];
          row2 = [mzx, mzy, - mzz - 1, mzw];
          row3 = [0, 0, - mwz, 0]
      in [row0, row1, row2, row3])"

subsection \<open>Camera\<close>

text \<open>
  What a compiled kernel is: for a camera whose mode was not \<^verbatim>\<open>PERSPECTIVE\<close> at compile
  time the body is empty; otherwise the body is the three statements of the branch, with
  the values of \<^verbatim>\<open>near_plane\<close>, \<^verbatim>\<open>fov_rad\<close>, \<^verbatim>\<open>aspect_ratio\<close> and \<^verbatim>\<open>far_plane\<close> read at
  compile time as its constants, in this order.
\<close>

datatype kernel = Empty_body | Perspective_body real real real real

record Camera =
  settings :: CameraSettings
  projection_matrix :: matrix
  view_matrix :: matrix
  compiled :: "kernel option"

text \<open>
  A field made by \<^verbatim>\<open>ti.Matrix.field(4, 4, float, shape=())\<close> starts as the zero matrix. A
  new camera has no compiled kernel.
\<close>

definition zero_matrix :: matrix where
  "zero_matrix = replicate 4 (replicate 4 0)"

definition Camera_init :: "CameraSettings \<Rightarrow> Camera" where
  "Camera_init settings' =
     \<lparr>settings = settings', projection_matrix = zero_matrix, view_matrix = zero_matrix,
      compiled = None\<rparr>"

text \<open>
  Compiling the kernel for a camera. The body of the source is one \<^verbatim>\<open>if\<close> under
  \<^verbatim>\<open>ti.static\<close>, with no \<^verbatim>\<open>else\<close>. The attribute \<^verbatim>\<open>fov_rad\<close> is read from the shared
  member \<^verbatim>\<open>CameraMode.PERSPECTIVE\<close>, hence from the state \<open>ms\<close> of the members.
\<close>

definition specialise :: "members \<Rightarrow> Camera \<Rightarrow> kernel" where
  "specialise ms self =
     (if mode (settings self) = PERSPECTIVE then
        Perspective_body (near_plane (settings self)) (fov_rad ms)
          (aspect_ratio (settings self)) (far_plane (settings self))
      else Empty_body)"

text \<open>Running a compiled kernel on a camera: the statements of the branch, or nothing.\<close>

fun run_kernel :: "kernel \<Rightarrow> Camera \<Rightarrow> Camera" where
  "run_kernel Empty_body self = self"
| "run_kernel (Perspective_body near_plane' fov_rad' aspect_ratio' far_plane') self =
     (let t = near_plane' * tan (fov_rad' / 2);
          r = t * aspect_ratio'
      in self\<lparr>projection_matrix :=
                projection_from_frustum (- r) r (- t) t near_plane' far_plane'\<rparr>)"

text \<open>
  A call of the kernel: compile it if this camera has no compiled kernel yet, then run
  the compiled kernel. No step raises.
\<close>

definition compute_projection_matrix :: "members \<Rightarrow> Camera \<Rightarrow> error + Camera" where
  "compute_projection_matrix ms self =
     (let k = (case compiled self of None \<Rightarrow> specialise ms self | Some k' \<Rightarrow> k')
      in Inr (run_kernel k (self\<lparr>compiled := Some k\<rparr>)))"

text \<open>Reading an entry of a matrix field: \<^verbatim>\<open>m[None][i, j]\<close>.\<close>

definition entry :: "matrix \<Rightarrow> nat \<Rightarrow> nat \<Rightarrow> real" where
  "entry m i j = m ! i ! j"

text \<open>
  Reading the parameter of a mode through a reference to it, as in
  \<^verbatim>\<open>settings.mode.fov_rad\<close>: the attribute of the member the reference points to.
\<close>

fun mode_parameter :: "members \<Rightarrow> CameraMode \<Rightarrow> real" where
  "mode_parameter ms PERSPECTIVE = fov_rad ms"
| "mode_parameter ms ORTHOGRAPHIC = box_height ms"
| "mode_parameter ms PHYSICAL = focal_length ms"

subsection \<open>Sample inputs\<close>

text \<open>
  The end-to-end scenario of the specification: a field of view of 90 degrees, planes at
  0.1 and 1000, aspect ratio 16/9; the other arguments at their defaults.
\<close>

definition scenario_settings :: CameraSettings where
  "scenario_settings =
     \<lparr>mode = PERSPECTIVE, near_plane = 0.1, far_plane = 1000, shutter_speed = 10,
      aperture = 4, iso = 100, sensor_size = (36, 24), focus_distance = 4,
      aspect_ratio = 16 / 9\<rparr>"

definition scenario_members :: members where
  "scenario_members = CameraMode_members\<lparr>fov_rad := pi / 2\<rparr>"

section \<open>Auxiliary facts\<close>

lemma tan_quarter_turn: "tan (pi / 2 / 2) = 1" "tan (pi / 4) = 1"
  by (simp_all add: tan_45)

text \<open>The first call on a camera compiles from the current values and runs the result.\<close>

lemma compute_projection_matrix_first_call:
  assumes "compiled self = None"
  shows "compute_projection_matrix ms self =
           Inr (run_kernel (specialise ms self)
                  (self\<lparr>compiled := Some (specialise ms self)\<rparr>))"
  using assms by (simp add: compute_projection_matrix_def Let_def)

text \<open>A later call runs the kernel compiled at the first call, whatever the values now.\<close>

lemma compute_projection_matrix_later_call:
  assumes "compiled self = Some k"
  shows "compute_projection_matrix ms self = Inr (run_kernel k self)"
proof -
  have same: "self\<lparr>compiled := Some k\<rparr> = self"
    using assms by simp
  show ?thesis
    unfolding compute_projection_matrix_def Let_def assms
    by (simp add: same)
qed

lemma compiled_run_kernel: "compiled (run_kernel k self) = compiled self"
  by (cases k) (simp_all add: Let_def)

lemma run_kernel_twice: "run_kernel k (run_kernel k self) = run_kernel k self"
  by (cases k) (simp_all add: Let_def)

section \<open>The frustum matrix\<close>

text \<open>
  C1. For all inputs, \<^verbatim>\<open>projection_from_frustum\<close> returns the matrix of the
  specification's derivation: rows \<open>[mxx, 0, 0, 0]\<close>, \<open>[0, myy, 0, 0]\<close>,
  \<open>[mzx, mzy, - mzz - 1, mzw]\<close> and \<open>[0, 0, - mwz, 0]\<close>, with the quantities as the
  specification defines them.
\<close>

theorem projection_from_frustum_refines_spec:
  "projection_from_frustum left right bottom top' near far =
     frustum_matrix_spec left right bottom top' near far"
  by (simp add: projection_from_frustum_def frustum_matrix_spec_def Let_def)




text \<open>
  On the sample input the entries \<open>[0][0]\<close> and \<open>[1][1]\<close> are \<open>2 * 0.1 / (1 - (- 1))\<close>,
  that is 0.1 and not 0.2.
\<close>

theorem frustum_sample_mxx_is_not_a_fifth:
  "entry (projection_from_frustum (- 1) 1 (- 1) 1 0.1 100) 0 0 \<noteq> 0.2 \<and>
   entry (projection_from_frustum (- 1) 1 (- 1) 1 0.1 100) 1 1 \<noteq> 0.2 \<and>
   \<not> \<bar>entry (projection_from_frustum (- 1) 1 (- 1) 1 0.1 100) 0 0 - 0.2\<bar> \<le> 0.0001 \<and>
   \<not> \<bar>entry (projection_from_frustum (- 1) 1 (- 1) 1 0.1 100) 1 1 - 0.2\<bar> \<le> 0.0001"
  by (simp add: projection_from_frustum_def entry_def Let_def)

text \<open>
  C8 (amended). For the sample input \<open>left = -1\<close>, \<open>right = 1\<close>, \<open>bottom = -1\<close>,
  \<open>top = 1\<close>, \<open>near = 0.1\<close>, \<open>far = 100\<close>, the entries \<open>[0][0]\<close> and \<open>[1][1]\<close> are both
  0.1, and \<open>mzz = -100/99.9\<close>, about \<open>-1.001\<close>: entry \<open>[2][2]\<close> is \<open>- mzz - 1\<close> and entry
  \<open>[3][2]\<close> is \<open>- (near * mzz)\<close> for this value.
\<close>

theorem frustum_sample_entries:
  "entry (projection_from_frustum (- 1) 1 (- 1) 1 0.1 100) 0 0 = 0.1 \<and>
   entry (projection_from_frustum (- 1) 1 (- 1) 1 0.1 100) 1 1 = 0.1 \<and>
   entry (projection_from_frustum (- 1) 1 (- 1) 1 0.1 100) 2 2 = - (- 100 / 99.9) - 1 \<and>
   entry (projection_from_frustum (- 1) 1 (- 1) 1 0.1 100) 3 2 = - (0.1 * (- 100 / 99.9)) \<and>
   \<bar>- 100 / 99.9 - (- 1.001) :: real\<bar> < 0.0001"
  by (simp add: projection_from_frustum_def entry_def Let_def)

section \<open>CameraMode\<close>

text \<open>
  C5. For every variant and every mode-specific mutator: a mutator called on a variant
  it does not belong to fails, with the module's error \<^verbatim>\<open>ValueError("Invalid camera mode")\<close>,
  and never succeeds; a mutator called on its own variant succeeds, returns the member,
  and sets that variant's parameter to the given value.
\<close>

theorem mutator_mode_guard:
  "set_fov_rad ORTHOGRAPHIC v ms = Inl (ValueError ''Invalid camera mode'') \<and>
   set_fov_rad PHYSICAL v ms = Inl (ValueError ''Invalid camera mode'') \<and>
   set_box_height PERSPECTIVE v ms = Inl (ValueError ''Invalid camera mode'') \<and>
   set_box_height PHYSICAL v ms = Inl (ValueError ''Invalid camera mode'') \<and>
   set_focal_length PERSPECTIVE v ms = Inl (ValueError ''Invalid camera mode'') \<and>
   set_focal_length ORTHOGRAPHIC v ms = Inl (ValueError ''Invalid camera mode'') \<and>
   (\<exists>ms'. set_fov_rad PERSPECTIVE v ms = Inr (PERSPECTIVE, ms') \<and> fov_rad ms' = v) \<and>
   (\<exists>ms'. set_box_height ORTHOGRAPHIC v ms = Inr (ORTHOGRAPHIC, ms') \<and>
          box_height ms' = v) \<and>
   (\<exists>ms'. set_focal_length PHYSICAL v ms = Inr (PHYSICAL, ms') \<and> focal_length ms' = v)"
  by (simp add: set_fov_rad_def set_box_height_def set_focal_length_def)

text \<open>
  C10. The parameter of a variant belongs to the shared member, not to a camera: after
  a successful mutator call on the mode held by one \<^verbatim>\<open>CameraSettings\<close> \<open>s1\<close>, the new value
  is what every other \<^verbatim>\<open>CameraSettings\<close> \<open>s2\<close> and every \<^verbatim>\<open>Camera\<close> \<open>cam\<close> of the same
  variant reads, and the parameters of the other two variants are as before.
\<close>

theorem mutator_effect_shared_per_variant:
  assumes "mode s2 = mode s1" and "mode (settings cam) = mode s1"
  shows "(set_fov_rad (mode s1) v ms = Inr (m', ms') \<longrightarrow>
            mode_parameter ms' (mode s1) = v \<and> mode_parameter ms' (mode s2) = v \<and>
            mode_parameter ms' (mode (settings cam)) = v \<and>
            box_height ms' = box_height ms \<and> focal_length ms' = focal_length ms) \<and>
         (set_box_height (mode s1) v ms = Inr (m', ms') \<longrightarrow>
            mode_parameter ms' (mode s1) = v \<and> mode_parameter ms' (mode s2) = v \<and>
            mode_parameter ms' (mode (settings cam)) = v \<and>
            fov_rad ms' = fov_rad ms \<and> focal_length ms' = focal_length ms) \<and>
         (set_focal_length (mode s1) v ms = Inr (m', ms') \<longrightarrow>
            mode_parameter ms' (mode s1) = v \<and> mode_parameter ms' (mode s2) = v \<and>
            mode_parameter ms' (mode (settings cam)) = v \<and>
            fov_rad ms' = fov_rad ms \<and> box_height ms' = box_height ms)"
  using assms
  by (cases "mode s1")
     (auto simp add: set_fov_rad_def set_box_height_def set_focal_length_def)

theorem mutator_effect_shared_per_variant_witness:
  "set_fov_rad (mode scenario_settings) 1 CameraMode_members =
     Inr (PERSPECTIVE, CameraMode_members\<lparr>fov_rad := 1\<rparr>) \<and>
   mode (scenario_settings\<lparr>aspect_ratio := 1\<rparr>) = mode scenario_settings \<and>
   mode (settings (Camera_init (scenario_settings\<lparr>far_plane := 10000\<rparr>))) =
     mode scenario_settings \<and>
   mode_parameter (CameraMode_members\<lparr>fov_rad := 1\<rparr>)
     (mode (scenario_settings\<lparr>aspect_ratio := 1\<rparr>)) = 1 \<and>
   mode_parameter (CameraMode_members\<lparr>fov_rad := 1\<rparr>)
     (mode (settings (Camera_init (scenario_settings\<lparr>far_plane := 10000\<rparr>)))) = 1 \<and>
   box_height (CameraMode_members\<lparr>fov_rad := 1\<rparr>) = 80 \<and>
   focal_length (CameraMode_members\<lparr>fov_rad := 1\<rparr>) = 80 \<and>
   set_box_height (mode (scenario_settings\<lparr>mode := ORTHOGRAPHIC\<rparr>)) 2 CameraMode_members =
     Inr (ORTHOGRAPHIC, CameraMode_members\<lparr>box_height := 2\<rparr>) \<and>
   mode_parameter (CameraMode_members\<lparr>box_height := 2\<rparr>)
     (mode (settings (Camera_init (scenario_settings\<lparr>mode := ORTHOGRAPHIC\<rparr>)))) = 2 \<and>
   focal_length (CameraMode_members\<lparr>box_height := 2\<rparr>) = 80 \<and>
   set_focal_length (mode (scenario_settings\<lparr>mode := PHYSICAL\<rparr>)) 3 CameraMode_members =
     Inr (PHYSICAL, CameraMode_members\<lparr>focal_length := 3\<rparr>) \<and>
   mode_parameter (CameraMode_members\<lparr>focal_length := 3\<rparr>)
     (mode (settings (Camera_init (scenario_settings\<lparr>mode := PHYSICAL\<rparr>)))) = 3 \<and>
   box_height (CameraMode_members\<lparr>focal_length := 3\<rparr>) = 80"
  using
    mutator_effect_shared_per_variant
      [of "scenario_settings\<lparr>aspect_ratio := 1\<rparr>" scenario_settings
          "Camera_init (scenario_settings\<lparr>far_plane := 10000\<rparr>)"
          1 CameraMode_members PERSPECTIVE "CameraMode_members\<lparr>fov_rad := 1\<rparr>"]
    mutator_effect_shared_per_variant
      [of "scenario_settings\<lparr>mode := ORTHOGRAPHIC\<rparr>" "scenario_settings\<lparr>mode := ORTHOGRAPHIC\<rparr>"
          "Camera_init (scenario_settings\<lparr>mode := ORTHOGRAPHIC\<rparr>)"
          2 CameraMode_members ORTHOGRAPHIC "CameraMode_members\<lparr>box_height := 2\<rparr>"]
    mutator_effect_shared_per_variant
      [of "scenario_settings\<lparr>mode := PHYSICAL\<rparr>" "scenario_settings\<lparr>mode := PHYSICAL\<rparr>"
          "Camera_init (scenario_settings\<lparr>mode := PHYSICAL\<rparr>)"
          3 CameraMode_members PHYSICAL "CameraMode_members\<lparr>focal_length := 3\<rparr>"]
  by (simp add: scenario_settings_def Camera_init_def CameraMode_members_def
      set_fov_rad_def set_box_height_def set_focal_length_def)

section \<open>CameraSettings\<close>

text \<open>
  The constructor does not validate. Called with \<open>near = 2\<close> and \<open>far = 1\<close>, with 0 for
  the shutter speed, the ISO, both sensor dimensions, the focus distance and the aspect
  ratio, and with the aperture 64, it returns a settings object holding these values.
\<close>

theorem CameraSettings_init_accepts_invalid:
  "(1 :: real) \<le> 2 \<and> (0 :: real) \<le> 0 \<and> (32 :: real) < 64 \<and>
   (\<exists>s. CameraSettings_init PERSPECTIVE 2 1 0 64 0 (0, 0) 0 0 = Inr s \<and>
        near_plane s = 2 \<and> far_plane s = 1 \<and> shutter_speed s = 0 \<and> aperture s = 64 \<and>
        iso s = 0 \<and> sensor_size s = (0, 0) \<and> focus_distance s = 0 \<and>
        aspect_ratio s = 0)"
  by (simp add: CameraSettings_init_def)

text \<open>
  C3 (amended). \<^verbatim>\<open>CameraSettings\<close> construction performs no validation and never fails:
  for every argument tuple, inside the domains or not, it succeeds and returns a
  settings object whose nine fields are the nine arguments.
\<close>

theorem CameraSettings_init_always_succeeds:
  "\<exists>s. CameraSettings_init m n f ss a i sz fd ar = Inr s \<and>
       mode s = m \<and> near_plane s = n \<and> far_plane s = f \<and> shutter_speed s = ss \<and>
       aperture s = a \<and> iso s = i \<and> sensor_size s = sz \<and> focus_distance s = fd \<and>
       aspect_ratio s = ar"
  by (simp add: CameraSettings_init_def)

section \<open>Camera\<close>




text \<open>
  For a new camera in the Orthographic mode the call returns normally, with no error:
  the settings are as they were and the projection matrix slot still holds the zeros it
  was created with.
\<close>

theorem compute_projection_matrix_orthographic_silent:
  "\<exists>c'. compute_projection_matrix CameraMode_members
          (Camera_init (scenario_settings\<lparr>mode := ORTHOGRAPHIC\<rparr>)) = Inr c' \<and>
        settings c' = scenario_settings\<lparr>mode := ORTHOGRAPHIC\<rparr> \<and>
        projection_matrix c' =
          [[0, 0, 0, 0], [0, 0, 0, 0], [0, 0, 0, 0], [0, 0, 0, 0]]"
  by (simp add: compute_projection_matrix_def specialise_def Camera_init_def
      zero_matrix_def numeral_eq_Suc)

text \<open>
  C4 (amended). When the kernel is invoked for the first time on a camera whose mode is
  Orthographic or Physical, it is a silent no-op: it returns normally, signals nothing,
  and leaves the settings and the content of both matrix slots unchanged. Every later
  invocation on that camera is the same silent no-op.
\<close>

theorem compute_projection_matrix_other_modes_noop:
  assumes "compiled self = None"
    and "mode (settings self) = ORTHOGRAPHIC \<or> mode (settings self) = PHYSICAL"
  shows "\<exists>c'. compute_projection_matrix ms self = Inr c' \<and>
              settings c' = settings self \<and>
              projection_matrix c' = projection_matrix self \<and>
              view_matrix c' = view_matrix self \<and>
              compute_projection_matrix ms' c' = Inr c'"
proof -
  have k: "specialise ms self = Empty_body"
    using assms(2) by (auto simp add: specialise_def)
  have first: "compute_projection_matrix ms self = Inr (self\<lparr>compiled := Some Empty_body\<rparr>)"
    using assms(1) by (simp add: compute_projection_matrix_first_call k)
  have later: "compute_projection_matrix ms' (self\<lparr>compiled := Some Empty_body\<rparr>) =
      Inr (self\<lparr>compiled := Some Empty_body\<rparr>)"
    by (simp add: compute_projection_matrix_later_call [of _ Empty_body])
  from first later show ?thesis
    by simp
qed

theorem compute_projection_matrix_other_modes_noop_witness:
  "compiled (Camera_init (scenario_settings\<lparr>mode := PHYSICAL\<rparr>)) = None \<and>
   mode (settings (Camera_init (scenario_settings\<lparr>mode := PHYSICAL\<rparr>))) = PHYSICAL \<and>
   (\<exists>c'. compute_projection_matrix CameraMode_members
           (Camera_init (scenario_settings\<lparr>mode := PHYSICAL\<rparr>)) = Inr c' \<and>
         settings c' = settings (Camera_init (scenario_settings\<lparr>mode := PHYSICAL\<rparr>)) \<and>
         projection_matrix c' = zero_matrix \<and>
         view_matrix c' = zero_matrix \<and>
         compute_projection_matrix scenario_members c' = Inr c')"
  using compute_projection_matrix_other_modes_noop
    [of "Camera_init (scenario_settings\<lparr>mode := PHYSICAL\<rparr>)" CameraMode_members
        scenario_members]
  by (simp add: Camera_init_def)

text \<open>
  In the end-to-end scenario the stored entries are \<open>[0][0] = 0.5625\<close> and
  \<open>[1][1] = 1\<close>: the denominators are \<open>right - left = 2 * r\<close> and \<open>top - bottom = 2 * t\<close>.
  They are not within \<open>0.0001\<close> of 1.125 and 2.
\<close>

theorem perspective_scenario_not_claimed_entries:
  "\<exists>c'. compute_projection_matrix scenario_members (Camera_init scenario_settings) = Inr c' \<and>
        \<not> \<bar>entry (projection_matrix c') 0 0 - 1.125\<bar> \<le> 0.0001 \<and>
        \<not> \<bar>entry (projection_matrix c') 1 1 - 2\<bar> \<le> 0.0001"
  by (simp add: compute_projection_matrix_def specialise_def projection_from_frustum_def
      entry_def Let_def tan_quarter_turn Camera_init_def scenario_settings_def
      scenario_members_def)

text \<open>
  C7 (amended). For the Perspective scenario \<open>fov_rad = pi / 2\<close>, \<open>near_plane = 0.1\<close>,
  \<open>far_plane = 1000\<close>, \<open>aspect_ratio = 16 / 9\<close>, the kernel, called on the camera for the
  first time, derives \<open>t = 0.1\<close> and \<open>r = 0.1 * (16 / 9) = 8 / 45\<close>, about \<open>0.1778\<close>, and
  the stored projection matrix has \<open>[0][0] = 0.5625\<close> and \<open>[1][1] = 1\<close>.
\<close>

theorem perspective_scenario_entries:
  assumes "compiled self = None"
    and "mode (settings self) = PERSPECTIVE" and "fov_rad ms = pi / 2"
    and "near_plane (settings self) = 0.1" and "far_plane (settings self) = 1000"
    and "aspect_ratio (settings self) = 16 / 9"
  shows "near_plane (settings self) * tan (fov_rad ms / 2) = 0.1 \<and>
         near_plane (settings self) * tan (fov_rad ms / 2) * aspect_ratio (settings self) =
           8 / 45 \<and>
         \<bar>8 / 45 - 0.1778 :: real\<bar> < 0.0001 \<and>
         (\<exists>c'. compute_projection_matrix ms self = Inr c' \<and>
               entry (projection_matrix c') 0 0 = 0.5625 \<and>
               entry (projection_matrix c') 1 1 = 1)"
proof -
  have tn: "tan (fov_rad ms / 2) = 1"
    by (simp add: assms(3) tan_quarter_turn)
  have t: "near_plane (settings self) * tan (fov_rad ms / 2) = 0.1"
    using assms(4) by (simp add: tn)
  have r: "near_plane (settings self) * tan (fov_rad ms / 2) * aspect_ratio (settings self) =
      8 / 45"
    using assms(6) by (simp add: t)
  have tol: "\<bar>8 / 45 - 0.1778 :: real\<bar> < 0.0001"
    by simp
  have k: "specialise ms self = Perspective_body 0.1 (pi / 2) (16 / 9) 1000"
    by (simp add: specialise_def assms(2-6))
  have run: "compute_projection_matrix ms self =
      Inr (self\<lparr>compiled := Some (Perspective_body 0.1 (pi / 2) (16 / 9) 1000),
                projection_matrix :=
                  projection_from_frustum (- (8 / 45)) (8 / 45) (- 0.1) 0.1 0.1 1000\<rparr>)"
    unfolding compute_projection_matrix_first_call [OF assms(1)] k
    by (simp add: Let_def tan_quarter_turn)
  have e00: "entry (projection_from_frustum (- (8 / 45)) (8 / 45) (- 0.1) 0.1 0.1 1000) 0 0 =
      0.5625"
    by (simp add: projection_from_frustum_def entry_def Let_def)
  have e11: "entry (projection_from_frustum (- (8 / 45)) (8 / 45) (- 0.1) 0.1 0.1 1000) 1 1 = 1"
    by (simp add: projection_from_frustum_def entry_def Let_def)
  from t r tol run e00 e11 show ?thesis
    by simp
qed

theorem perspective_scenario_entries_witness:
  "compiled (Camera_init scenario_settings) = None \<and>
   mode (settings (Camera_init scenario_settings)) = PERSPECTIVE \<and>
   fov_rad scenario_members = pi / 2 \<and>
   near_plane (settings (Camera_init scenario_settings)) = 0.1 \<and>
   far_plane (settings (Camera_init scenario_settings)) = 1000 \<and>
   aspect_ratio (settings (Camera_init scenario_settings)) = 16 / 9 \<and>
   (\<exists>c'. compute_projection_matrix scenario_members (Camera_init scenario_settings) = Inr c' \<and>
         entry (projection_matrix c') 0 0 = 0.5625 \<and>
         entry (projection_matrix c') 1 1 = 1)"
proof -
  have h: "compiled (Camera_init scenario_settings) = None"
    "mode (settings (Camera_init scenario_settings)) = PERSPECTIVE"
    "fov_rad scenario_members = pi / 2"
    "near_plane (settings (Camera_init scenario_settings)) = 0.1"
    "far_plane (settings (Camera_init scenario_settings)) = 1000"
    "aspect_ratio (settings (Camera_init scenario_settings)) = 16 / 9"
    by (simp_all add: Camera_init_def scenario_settings_def scenario_members_def)
  from perspective_scenario_entries [OF h] h show ?thesis
    by blast
qed

text \<open>
  C9. Calling the kernel twice in succession on the same camera, with the settings and
  the mode parameters unchanged, writes the same matrix twice: both calls return, and
  the camera after the second call is the camera after the first.
\<close>

theorem compute_projection_matrix_idempotent:
  "\<exists>c1 c2. compute_projection_matrix ms self = Inr c1 \<and>
           compute_projection_matrix ms c1 = Inr c2 \<and>
           projection_matrix c2 = projection_matrix c1 \<and> c2 = c1"
proof -
  define k where "k = (case compiled self of None \<Rightarrow> specialise ms self | Some k' \<Rightarrow> k')"
  define c1 where "c1 = run_kernel k (self\<lparr>compiled := Some k\<rparr>)"
  have first: "compute_projection_matrix ms self = Inr c1"
    by (simp add: compute_projection_matrix_def Let_def k_def c1_def)
  have "compiled c1 = Some k"
    by (simp add: c1_def compiled_run_kernel)
  then have "compute_projection_matrix ms c1 = Inr (run_kernel k c1)"
    by (rule compute_projection_matrix_later_call)
  then have second: "compute_projection_matrix ms c1 = Inr c1"
    by (simp add: c1_def run_kernel_twice)
  from first second show ?thesis
    by simp
qed

end
